theory Spec2Isabelle
  imports Main "HOL-Library.Char_ord" "HOL-Library.List_Lexorder"
begin

section \<open>Paths and file names\<close>

text \<open>
  \<open>Clean\<close> is Go's \<open>filepath.Clean\<close> on Unix: the path is cut at its separators, empty
  elements and \<open>.\<close> are dropped, an inner \<open>..\<close> removes the element before it, a
  \<open>..\<close> at the start of a rooted path is dropped, and the empty result is \<open>.\<close>.
\<close>

fun split_on :: "char \<Rightarrow> string \<Rightarrow> string list" where
  "split_on c [] = [[]]"
| "split_on c (x # xs) =
     (if x = c then [] # split_on c xs
      else (case split_on c xs of [] \<Rightarrow> [[x]] | y # ys \<Rightarrow> (x # y) # ys))"

definition clean_step :: "bool \<Rightarrow> string list \<Rightarrow> string \<Rightarrow> string list" where
  "clean_step rooted st e =
     (if e = [] \<or> e = ''.'' then st
      else if e = ''..'' then
        (case st of
           [] \<Rightarrow> if rooted then [] else [''..'']
         | t # ts \<Rightarrow> if t = ''..'' then ''..'' # st else ts)
      else e # st)"

fun join_slash :: "string list \<Rightarrow> string" where
  "join_slash [] = []"
| "join_slash [e] = e"
| "join_slash (e # f # es) = e @ ''/'' @ join_slash (f # es)"

definition Clean :: "string \<Rightarrow> string" where
  "Clean p =
     (let rooted = (case p of [] \<Rightarrow> False | c # _ \<Rightarrow> c = CHR ''/'');
          body = join_slash (rev (foldl (clean_step rooted) [] (split_on CHR ''/'' p)))
      in if rooted then CHR ''/'' # body else if body = [] then ''.'' else body)"

text \<open>
  A path is the pair of a directory, in its cleaned spelling, and a file name inside it.
  \<open>filepath.Join(dir, name)\<close> is \<open>Clean(dir + "/" + name)\<close>; for a \<open>name\<close> that is one
  path element (which is what \<open>filepath.Base\<close>, the temporary-file pattern and the
  token source yield), possibly after separators, that is the file \<open>name\<close>, without
  those separators, in the directory \<open>Clean(dir)\<close>.  A successful
  \<open>securejoin.SecureJoin(dir, name)\<close> returns the same path.  The handlers of \<open>app.go\<close>
  only ever change the file name of a path (they cut its extension and add a new one).

  \<open>Ext\<close> and \<open>Base\<close> follow Go's \<open>path/filepath\<close> on Unix: \<open>Ext\<close> scans from the end
  of the string up to the last path separator and returns the suffix that starts at the
  first dot it meets; \<open>Base\<close> strips trailing separators and returns the last element.
\<close>

type_synonym path = "string \<times> string"

definition Join :: "string \<Rightarrow> string \<Rightarrow> path" where
  "Join dir name = (Clean dir, dropWhile (\<lambda>c. c = CHR ''/'') name)"

fun ext_scan :: "string \<Rightarrow> string \<Rightarrow> string" where
  "ext_scan [] acc = []"
| "ext_scan (c # cs) acc =
     (if c = CHR ''/'' then []
      else if c = CHR ''.'' then c # acc
      else ext_scan cs (c # acc))"

definition Ext :: "string \<Rightarrow> string" where
  "Ext p = ext_scan (rev p) []"

definition Base :: "string \<Rightarrow> string" where
  "Base p =
     (if p = [] then ''.''
      else let q = rev (dropWhile (\<lambda>c. c = CHR ''/'') (rev p));
               e = rev (takeWhile (\<lambda>c. c \<noteq> CHR ''/'') (rev q))
           in if e = [] then ''/'' else e)"

definition TrimSuffix :: "string \<Rightarrow> string \<Rightarrow> string" where
  "TrimSuffix s suf =
     (if length suf \<le> length s \<and> drop (length s - length suf) s = suf
      then take (length s - length suf) s else s)"

text \<open>\<open>basenameWithoutExtension\<close> and \<open>pathWithoutExtension\<close> of \<open>app.go\<close>.\<close>

definition basenameWithoutExtension :: "string \<Rightarrow> string" where
  "basenameWithoutExtension p =
     (let basename = Base p in take (length basename - length (Ext basename)) basename)"

definition pathWithoutExtension :: "path \<Rightarrow> path" where
  "pathWithoutExtension p = (fst p, take (length (snd p) - length (Ext (snd p))) (snd p))"

text \<open>\<open>strings.TrimSuffix(p, filepath.Ext(p))\<close> on a path, and \<open>fmt.Sprintf\<close> appending
  to one.\<close>

definition trimExt :: "path \<Rightarrow> path" where
  "trimExt p = (fst p, TrimSuffix (snd p) (Ext (snd p)))"

definition addSuffix :: "path \<Rightarrow> string \<Rightarrow> path" where
  "addSuffix p s = (fst p, snd p @ s)"

text \<open>Go's \<open>prefixAndSuffix\<close> of \<open>ioutil.TempFile\<close>: the pattern is cut at its last star.\<close>

definition prefixAndSuffix :: "string \<Rightarrow> string \<times> string" where
  "prefixAndSuffix pattern =
     (if CHR ''*'' \<in> set pattern
      then (rev (tl (dropWhile (\<lambda>c. c \<noteq> CHR ''*'') (rev pattern))),
            rev (takeWhile (\<lambda>c. c \<noteq> CHR ''*'') (rev pattern)))
      else (pattern, []))"

section \<open>The world the handlers act on\<close>

text \<open>
  Arguments of an external command, the contents a file can have, and the calls a handler
  makes that touch the file system or the network, in the order it makes them.
\<close>

datatype arg = Str string | Num int | File path

datatype content = Empty | Uploaded string | Fetched string | Encoded "arg list" | Partial

datatype event =
    EvTempFile path
  | EvCopy path
  | EvCreate path
  | EvRunCmd int "arg list"
  | EvRename path path
  | EvRemove path
  | EvHead string
  | EvDownload string path

text \<open>How an external step ends: it succeeds, or it fails and may leave a partial file.\<close>

datatype outcome = Done | Failed bool

datatype oserr = SecureJoinError | StatError

text \<open>What the handler wrote to the response writer: a rendered template, a body,
  \<open>http.Error\<close> with its message and status, nothing at all, or a panic.\<close>

datatype reply = Rendered string | Written string | HttpError string nat | Nothing | Panic string

record video_info =
  VideoURL :: string
  ThumbnailURL :: string
  Title :: string
  Description :: string

text \<open>
  The outcomes of everything outside \<open>app.go\<close>: the operating system
  (\<open>ioutil.TempFile\<close>, \<open>io.Copy\<close>, \<open>os.Create\<close>, \<open>os.Stat\<close>, \<open>os.Rename\<close>),
  \<open>securejoin\<close>, the external encoder run by \<open>utils.RunCmd\<close>, the importers and the
  remote server.  They are parameters of the model.  So is the directory that a spelling
  names: two cleaned spellings may still name one directory (a relative and an absolute
  path, a symbolic link), and \<open>real_dir\<close> gives the directory the operating system
  resolves a spelling to.
\<close>

record env =
  temp_rand :: "string \<Rightarrow> string \<Rightarrow> string option"
  copy_ok :: "path \<Rightarrow> bool"
  securejoin_ok :: "string \<Rightarrow> string \<Rightarrow> bool"
  stat_fails :: "path \<Rightarrow> bool"
  create_ok :: "path \<Rightarrow> bool"
  run_outcome :: "arg list \<Rightarrow> outcome"
  rename_ok :: "path \<Rightarrow> path \<Rightarrow> bool"
  importer_ok :: "string \<Rightarrow> bool"
  get_video_info :: "string \<Rightarrow> video_info option"
  head_ok :: "string \<Rightarrow> bool"
  content_length :: "string \<Rightarrow> int option"
  download_outcome :: "string \<Rightarrow> path \<Rightarrow> outcome"
  real_dir :: "string \<Rightarrow> string"

text \<open>
  The files on disk, the calls made so far, and the tokens \<open>shortuuid.New()\<close> has still
  to yield in this run (a run that asks for more tokens than the list holds has no
  result: \<open>None\<close>).  The files are keyed by where they are (\<open>locate\<close>: the resolved
  directory and the name), the calls are recorded with the paths as the handler spells
  them.
\<close>

record world =
  files :: "path \<rightharpoonup> content"
  trace :: "event list"
  uuids :: "string list"

text \<open>The fields of \<open>Config\<close> that \<open>app.go\<close> reads (\<open>Server\<close>, \<open>Thumbnailer\<close>,
  \<open>Transcoder\<close>), and \<open>media.Path\<close> as \<open>App.Run\<close> builds it.  \<open>Sizes\<close> is a Go map;
  the list gives its entries in the order this run ranges over them.\<close>

record config =
  UploadPath :: string
  ServerPreserveUploadFilename :: bool
  MaxUploadSize :: int
  ThumbnailerTimeout :: int
  PositionFromStart :: int
  TranscoderTimeout :: int
  Sizes :: "(string \<times> string) list"

record media_path =
  Path :: string
  Prefix :: string
  PreserveUploadFilename :: bool

text \<open>The fields of \<open>media.Video\<close> that the playback handler reads: \<open>Path\<close> and
  \<open>Title\<close>.  \<open>Library.Videos\<close> maps an identifier to its video.\<close>

record video =
  VPath :: string
  VTitle :: string

record library =
  Paths :: "(string \<times> media_path) list"
  Videos :: "string \<rightharpoonup> video"

text \<open>A request: its method, its form values (\<open>FormValue\<close> is the empty string for a
  missing key), the uploaded file of the form, if any, with its claimed name and size,
  the variables of the route (\<open>mux.Vars\<close>) and the values of the query string
  (\<open>URL.Query().Get\<close> is the empty string for a missing key).\<close>

record request =
  Method :: string
  FormValue :: "string \<Rightarrow> string"
  FormFile :: "(string \<times> int) option"
  Vars :: "string \<rightharpoonup> string"
  Query :: "string \<Rightarrow> string"

subsection \<open>Primitive steps\<close>

definition emit :: "event \<Rightarrow> world \<Rightarrow> world" where
  "emit e w = w\<lparr>trace := trace w @ [e]\<rparr>"

definition locate :: "env \<Rightarrow> path \<Rightarrow> path" where
  "locate env p = (real_dir env (fst p), snd p)"

definition put :: "env \<Rightarrow> path \<Rightarrow> content \<Rightarrow> world \<Rightarrow> world" where
  "put env p c w = w\<lparr>files := (files w)(locate env p \<mapsto> c)\<rparr>"

definition TempFile :: "env \<Rightarrow> string \<Rightarrow> string \<Rightarrow> world \<Rightarrow> path option \<times> world" where
  "TempFile env dir pattern w =
     (case temp_rand env dir pattern of
        None \<Rightarrow> (None, w)
      | Some r \<Rightarrow>
          (case prefixAndSuffix pattern of
             (pre, suf) \<Rightarrow> (Some (Join dir (pre @ r @ suf)),
                            put env (Join dir (pre @ r @ suf)) Empty
                              (emit (EvTempFile (Join dir (pre @ r @ suf))) w))))"

definition io_Copy :: "env \<Rightarrow> path \<Rightarrow> string \<Rightarrow> world \<Rightarrow> bool \<times> world" where
  "io_Copy env p name w =
     (if copy_ok env p then (True, put env p (Uploaded name) (emit (EvCopy p) w))
      else (False, put env p Partial (emit (EvCopy p) w)))"

definition os_Create :: "env \<Rightarrow> path \<Rightarrow> world \<Rightarrow> bool \<times> world" where
  "os_Create env p w =
     (if create_ok env p then (True, put env p Empty (emit (EvCreate p) w))
      else (False, emit (EvCreate p) w))"

definition os_Remove :: "env \<Rightarrow> path \<Rightarrow> world \<Rightarrow> world" where
  "os_Remove env p w = (emit (EvRemove p) w)\<lparr>files := (files w)(locate env p := None)\<rparr>"

definition os_Rename :: "env \<Rightarrow> path \<Rightarrow> path \<Rightarrow> world \<Rightarrow> bool \<times> world" where
  "os_Rename env a b w =
     (case files w (locate env a) of
        None \<Rightarrow> (False, emit (EvRename a b) w)
      | Some c \<Rightarrow>
          if rename_ok env a b
          then (True, (emit (EvRename a b) w)
                        \<lparr>files := ((files w)(locate env a := None))(locate env b \<mapsto> c)\<rparr>)
          else (False, emit (EvRename a b) w))"

text \<open>The file an encoder call writes is its last argument.\<close>

definition output_of :: "arg list \<Rightarrow> path option" where
  "output_of args = (case rev args of File p # _ \<Rightarrow> Some p | _ \<Rightarrow> None)"

definition write_result :: "env \<Rightarrow> path option \<Rightarrow> content \<Rightarrow> world \<Rightarrow> world" where
  "write_result env po c w = (case po of None \<Rightarrow> w | Some p \<Rightarrow> put env p c w)"

text \<open>Modelled from the spec: \<open>utils.RunCmd\<close> is not among the sources.  Section 4.3
  (Process Runner): it runs the command under the timeout and reports success or an
  error; whether it succeeds is a parameter.\<close>

definition RunCmd :: "env \<Rightarrow> int \<Rightarrow> arg list \<Rightarrow> world \<Rightarrow> bool \<times> world" where
  "RunCmd env timeout args w =
     (case run_outcome env args of
        Done \<Rightarrow> (True, write_result env (output_of args) (Encoded args) (emit (EvRunCmd timeout args) w))
      | Failed leaves \<Rightarrow>
          (False, if leaves then write_result env (output_of args) Partial (emit (EvRunCmd timeout args) w)
                  else emit (EvRunCmd timeout args) w))"

text \<open>Modelled from the spec: \<open>utils.Download\<close> is not among the sources; it fetches a
  URL into the named file (section 4.2, step 3) and may fail.\<close>

definition Download :: "env \<Rightarrow> string \<Rightarrow> path \<Rightarrow> world \<Rightarrow> bool \<times> world" where
  "Download env url p w =
     (case download_outcome env url p of
        Done \<Rightarrow> (True, put env p (Fetched url) (emit (EvDownload url p) w))
      | Failed leaves \<Rightarrow>
          (False, if leaves then put env p Partial (emit (EvDownload url p) w)
                  else emit (EvDownload url p) w))"

section \<open>Name resolution\<close>

definition preserveUploadFilenameIsEnabled :: "config \<Rightarrow> library \<Rightarrow> string \<Rightarrow> bool option" where
  "preserveUploadFilenameIsEnabled cfg lib targetLibraryDir =
     (if ServerPreserveUploadFilename cfg then Some True
      else map_option PreserveUploadFilename (map_of (Paths lib) targetLibraryDir))"

definition fileExistsAtLocation ::
  "env \<Rightarrow> (path \<rightharpoonup> content) \<Rightarrow> string \<Rightarrow> string \<Rightarrow> bool \<times> oserr option" where
  "fileExistsAtLocation env fs filename location =
     (if \<not> securejoin_ok env location filename then (False, Some SecureJoinError)
      else if stat_fails env (Join location filename) then (False, Some StatError)
      else if fs (locate env (Join location filename)) = None then (False, None)
      else (True, None))"

fun fileExistsAtAnyLocation ::
  "env \<Rightarrow> (path \<rightharpoonup> content) \<Rightarrow> string \<Rightarrow> string list \<Rightarrow> bool \<times> oserr option" where
  "fileExistsAtAnyLocation env fs filename [] = (False, None)"
| "fileExistsAtAnyLocation env fs filename (loc # locs) =
     (case fileExistsAtLocation env fs filename loc of
        (exists, err) \<Rightarrow>
          if err \<noteq> None then (False, err)
          else if exists \<and> err = None then (True, None)
          else fileExistsAtAnyLocation env fs filename locs)"

text \<open>
  The loop of \<open>newVideoFileName\<close>.  It either returns from inside its body (\<open>Return\<close>,
  after \<open>http.Error\<close>) or leaves through its condition (\<open>Exit\<close>, with the current name).
  Each pass of the body draws one token.
\<close>

datatype loop_exit = Return "oserr option" | Exit string

fun collision_loop ::
  "env \<Rightarrow> (path \<rightharpoonup> content) \<Rightarrow> string \<Rightarrow> string list \<Rightarrow> string \<Rightarrow> string list
     \<Rightarrow> (loop_exit \<times> string list) option" where
  "collision_loop env fs candidateFilename locs newFileName [] =
     (case fileExistsAtAnyLocation env fs newFileName locs of
        (exists, err) \<Rightarrow>
          if exists = True \<and> err = None
          then (if err \<noteq> None then Some (Return err, []) else None)
          else Some (Exit newFileName, []))"
| "collision_loop env fs candidateFilename locs newFileName (u # us) =
     (case fileExistsAtAnyLocation env fs newFileName locs of
        (exists, err) \<Rightarrow>
          if exists = True \<and> err = None
          then (if err \<noteq> None then Some (Return err, u # us)
                else collision_loop env fs candidateFilename locs
                       (basenameWithoutExtension candidateFilename @ ''_'' @ u @ ''.mp4'') us)
          else Some (Exit newFileName, u # us))"

definition oserr_text :: "oserr option \<Rightarrow> string" where
  "oserr_text e = (case e of Some SecureJoinError \<Rightarrow> ''securejoin'' | Some StatError \<Rightarrow> ''stat'' | None \<Rightarrow> [])"

text \<open>
  \<open>newVideoFileName\<close> returns the new name, its error, and what it wrote to the response
  writer.  The variable \<open>err\<close> of the loop is declared by the loop's own \<open>:=\<close>; the test
  after the loop reads the named result \<open>err\<close>, which nothing assigns.
\<close>

definition newVideoFileName ::
  "env \<Rightarrow> (path \<rightharpoonup> content) \<Rightarrow> string \<Rightarrow> string list \<Rightarrow> string list
     \<Rightarrow> ((string \<times> oserr option \<times> reply option) \<times> string list) option" where
  "newVideoFileName env fs candidateFilename locs us =
     (case (if candidateFilename \<noteq> []
            then Some (basenameWithoutExtension candidateFilename @ ''.mp4'', us)
            else (case us of [] \<Rightarrow> None | u # us' \<Rightarrow> Some (u @ ''.mp4'', us'))) of
        None \<Rightarrow> None
      | Some (newFileName, us1) \<Rightarrow>
          (case collision_loop env fs candidateFilename locs newFileName us1 of
             None \<Rightarrow> None
           | Some (Return e, us2) \<Rightarrow> Some (([], e, Some (HttpError (oserr_text e) 500)), us2)
           | Some (Exit n, us2) \<Rightarrow>
               (let err = (None :: oserr option)
                in if err \<noteq> None then Some (([], err, None), us2)
                   else Some ((n, None, None), us2))))"

section \<open>The upload handler\<close>

definition getSelectedTargetLibraryDir :: "library \<Rightarrow> request \<Rightarrow> reply + string" where
  "getSelectedTargetLibraryDir lib request =
     (case map_of (Paths lib) (FormValue request ''target_library_path'') of
        None \<Rightarrow> Inl (HttpError (''uploading to invalid library path: ''
                                 @ FormValue request ''target_library_path'') 500)
      | Some _ \<Rightarrow> Inr (FormValue request ''target_library_path''))"

definition extractFormFile :: "request \<Rightarrow> reply + string \<times> int" where
  "extractFormFile request =
     (case FormFile request of
        None \<Rightarrow> Inl (HttpError ''error processing form'' 500)
      | Some f \<Rightarrow> Inr f)"

definition copyFileFromFormToUploadDir ::
  "env \<Rightarrow> config \<Rightarrow> string \<Rightarrow> world \<Rightarrow> (reply + path) \<times> world" where
  "copyFileFromFormToUploadDir env cfg videoFilenameFromUpload w =
     (case TempFile env (UploadPath cfg) (''tube-upload-*'' @ Ext videoFilenameFromUpload) w of
        (None, w1) \<Rightarrow> (Inl (HttpError ''error creating temporary file for uploading'' 500), w1)
      | (Some uploadedFile, w1) \<Rightarrow>
          (case io_Copy env uploadedFile videoFilenameFromUpload w1 of
             (False, w2) \<Rightarrow> (Inl (HttpError ''error writing file'' 500), w2)
           | (True, w2) \<Rightarrow> (Inr uploadedFile, w2)))"

definition getTranscodedPath :: "env \<Rightarrow> config \<Rightarrow> string \<Rightarrow> reply + path" where
  "getTranscodedPath env cfg newVideoBasename =
     (if securejoin_ok env (UploadPath cfg) newVideoBasename
      then Inr (Join (UploadPath cfg) newVideoBasename)
      else Inl (HttpError ''error creating temporary filename for transcoding'' 500))"

text \<open>The argument lists that \<open>createVideo\<close>, \<open>createThumbnail\<close> and
  \<open>createScaledVideo\<close> hand to \<open>utils.RunCmd\<close>.\<close>

definition video_args :: "path \<Rightarrow> path \<Rightarrow> string \<Rightarrow> string \<Rightarrow> arg list" where
  "video_args videoFile transcodedVideoPath videoTitle videoDescription =
     [Str ''ffmpeg'', Str ''-y'', Str ''-vcodec'', Str ''h264'', Str ''-acodec'', Str ''aac'',
      Str ''-strict'', Str ''-2'', Str ''-loglevel'', Str ''quiet'',
      Str ''-metadata'', Str (''title='' @ videoTitle),
      Str ''-metadata'', Str (''comment='' @ videoDescription),
      Str ''-i'', File videoFile, File transcodedVideoPath]"

definition thumbnail_args :: "path \<Rightarrow> path \<Rightarrow> int \<Rightarrow> arg list" where
  "thumbnail_args videoFile thumbnailPath secondsFromStart =
     [Str ''ffmpeg'', Str ''-y'', Str ''-vf'', Str ''thumbnail'', Str ''-t'', Num secondsFromStart,
      Str ''-vframes'', Str ''1'', Str ''-strict'', Str ''-2'', Str ''-loglevel'', Str ''quiet'',
      Str ''-i'', File videoFile, File thumbnailPath]"

definition scaled_args :: "path \<Rightarrow> path \<Rightarrow> string \<Rightarrow> string \<Rightarrow> string \<Rightarrow> arg list" where
  "scaled_args videoFile scaledVideoFile videoTitle videoDescription sz =
     [Str ''ffmpeg'', Str ''-y'', Str ''-s'', Str sz, Str ''-c:v'', Str ''libx264'',
      Str ''-c:a'', Str ''aac'', Str ''-crf'', Str ''18'', Str ''-strict'', Str ''-2'',
      Str ''-loglevel'', Str ''verbose'',
      Str ''-metadata'', Str (''title='' @ videoTitle),
      Str ''-metadata'', Str (''comment='' @ videoDescription),
      Str ''-i'', File videoFile, File scaledVideoFile]"

definition createVideo ::
  "env \<Rightarrow> path \<Rightarrow> path \<Rightarrow> int \<Rightarrow> string \<Rightarrow> string \<Rightarrow> world \<Rightarrow> bool \<times> world" where
  "createVideo env videoFile transcodedVideoPath timeout videoTitle videoDescription w =
     RunCmd env timeout (video_args videoFile transcodedVideoPath videoTitle videoDescription) w"

definition createThumbnail ::
  "env \<Rightarrow> path \<Rightarrow> path \<Rightarrow> int \<Rightarrow> int \<Rightarrow> world \<Rightarrow> bool \<times> world" where
  "createThumbnail env videoFile thumbnailPath timeout secondsFromStart w =
     RunCmd env timeout (thumbnail_args videoFile thumbnailPath secondsFromStart) w"

definition createScaledVideo ::
  "env \<Rightarrow> path \<Rightarrow> path \<Rightarrow> int \<Rightarrow> string \<Rightarrow> string \<Rightarrow> string \<Rightarrow> world \<Rightarrow> bool \<times> world" where
  "createScaledVideo env videoFile scaledVideoFile timeout videoTitle videoDescription sz w =
     RunCmd env timeout
       (scaled_args videoFile scaledVideoFile videoTitle videoDescription sz) w"

text \<open>The loop over \<open>a.Config.Transcoder.Sizes\<close> of \<open>uploadHandler\<close>: \<open>Some\<close> reply when
  it returns from the handler, \<open>None\<close> when it runs to its end.\<close>

fun upload_sizes ::
  "env \<Rightarrow> config \<Rightarrow> path \<Rightarrow> path \<Rightarrow> path \<Rightarrow> string \<Rightarrow> string \<Rightarrow> (string \<times> string) list
     \<Rightarrow> world \<Rightarrow> reply option \<times> world" where
  "upload_sizes env cfg uploadedFile transcodedVideoPath newVideoPath title descr [] w = (None, w)"
| "upload_sizes env cfg uploadedFile transcodedVideoPath newVideoPath title descr ((sz, suffix) # rest) w =
     (case createScaledVideo env uploadedFile
             (addSuffix (trimExt transcodedVideoPath) (''#'' @ suffix @ ''.mp4''))
             (TranscoderTimeout cfg) title descr sz w of
        (False, w1) \<Rightarrow> (Some (HttpError ''error transcoding video'' 500), w1)
      | (True, w1) \<Rightarrow>
          (case os_Rename env
                  (addSuffix (trimExt transcodedVideoPath) (''#'' @ suffix @ ''.mp4''))
                  (addSuffix (trimExt newVideoPath) (''#'' @ suffix @ ''.mp4'')) w1 of
             (False, w2) \<Rightarrow> (Some (HttpError ''error moving scaled video'' 500), w2)
           | (True, w2) \<Rightarrow>
               upload_sizes env cfg uploadedFile transcodedVideoPath newVideoPath title descr rest w2))"

text \<open>Transcoding, thumbnail and the two renames into the collection (lines 302 to 345):
  \<open>Some\<close> reply when one of them fails and the handler returns, \<open>None\<close> when all four
  succeeded.\<close>

definition upload_publish ::
  "env \<Rightarrow> config \<Rightarrow> request \<Rightarrow> path \<Rightarrow> path \<Rightarrow> path \<Rightarrow> world \<Rightarrow> reply option \<times> world" where
  "upload_publish env cfg request newVideoPath uploadedFile transcodedVideoPath w =
     (case createVideo env uploadedFile transcodedVideoPath (TranscoderTimeout cfg)
             (FormValue request ''video_title'') (FormValue request ''video_description'') w of
        (False, w1) \<Rightarrow> (Some (HttpError ''error transcoding video'' 500), w1)
      | (True, w1) \<Rightarrow>
     (case createThumbnail env uploadedFile
             (addSuffix (pathWithoutExtension transcodedVideoPath) ''.jpg'')
             (ThumbnailerTimeout cfg) (PositionFromStart cfg) w1 of
        (False, w2) \<Rightarrow> (Some (HttpError ''error generating thumbnail'' 500), w2)
      | (True, w2) \<Rightarrow>
     (case os_Rename env (addSuffix (pathWithoutExtension transcodedVideoPath) ''.jpg'')
             (addSuffix (pathWithoutExtension newVideoPath) ''.jpg'') w2 of
        (False, w3) \<Rightarrow> (Some (HttpError ''error renaming generated thumbnail'' 500), w3)
      | (True, w3) \<Rightarrow>
     (case os_Rename env transcodedVideoPath newVideoPath w3 of
        (False, w4) \<Rightarrow> (Some (HttpError ''error renaming transcoded video'' 500), w4)
      | (True, w4) \<Rightarrow> (None, w4)))))"

text \<open>From the transcoder run to the end of the handler (lines 302 to 383).\<close>

definition upload_transcode ::
  "env \<Rightarrow> config \<Rightarrow> request \<Rightarrow> path \<Rightarrow> path \<Rightarrow> path \<Rightarrow> world \<Rightarrow> reply \<times> world" where
  "upload_transcode env cfg request newVideoPath uploadedFile transcodedVideoPath w =
     (case upload_publish env cfg request newVideoPath uploadedFile transcodedVideoPath w of
        (Some r, w4) \<Rightarrow> (r, w4)
      | (None, w4) \<Rightarrow>
     (case upload_sizes env cfg uploadedFile transcodedVideoPath newVideoPath
             (FormValue request ''video_title'') (FormValue request ''video_description'')
             (Sizes cfg) w4 of
        (Some r, w5) \<Rightarrow> (r, w5)
      | (None, w5) \<Rightarrow> (Written ''Video successfully uploaded!'', w5)))"

text \<open>From the creation of the transcoding target on (lines 275 to 289); the deferred
  \<open>os.Remove(transcodedVideoFile.Name())\<close> runs when the rest has returned.\<close>

definition upload_staged ::
  "env \<Rightarrow> config \<Rightarrow> request \<Rightarrow> string \<Rightarrow> path \<Rightarrow> path \<Rightarrow> world \<Rightarrow> reply \<times> world" where
  "upload_staged env cfg request newVideoBasename newVideoPath uploadedFile w =
     (case getTranscodedPath env cfg newVideoBasename of
        Inl r \<Rightarrow> (r, w)
      | Inr transcodedVideoPath \<Rightarrow>
          (case os_Create env transcodedVideoPath w of
             (False, w1) \<Rightarrow> (HttpError ''error creating temporary file for transcoding'' 500, w1)
           | (True, w1) \<Rightarrow>
               (case upload_transcode env cfg request newVideoPath uploadedFile transcodedVideoPath w1 of
                  (r, w2) \<Rightarrow> (r, os_Remove env transcodedVideoPath w2))))"

text \<open>The POST branch of \<open>uploadHandler\<close>; the deferred \<open>os.Remove(uploadedFile.Name())\<close>
  runs last.  Left out, as they touch neither the scratch directory nor a collection:
  \<open>request.ParseMultipartForm(uploadParserBuffer)\<close> (its result is ignored by the
  handler), the log calls, \<open>videoContentFromUpload.Close()\<close> and \<open>Chmod\<close>.\<close>

definition upload_post :: "env \<Rightarrow> config \<Rightarrow> library \<Rightarrow> request \<Rightarrow> world \<Rightarrow> (reply \<times> world) option" where
  "upload_post env cfg lib request w =
     (case getSelectedTargetLibraryDir lib request of
        Inl r \<Rightarrow> Some (r, w)
      | Inr targetLibraryDir \<Rightarrow>
     (case extractFormFile request of
        Inl r \<Rightarrow> Some (r, w)
      | Inr (videoFilenameFromUpload, fsize) \<Rightarrow>
     (case newVideoFileName env (files w) videoFilenameFromUpload
             [targetLibraryDir, UploadPath cfg] (uuids w) of
        None \<Rightarrow> None
      | Some ((newVideoBasename, err, wrote), us) \<Rightarrow>
          if err \<noteq> None
          then Some (case wrote of Some r \<Rightarrow> r | None \<Rightarrow> Nothing, w\<lparr>uuids := us\<rparr>)
          else
     (case copyFileFromFormToUploadDir env cfg videoFilenameFromUpload (w\<lparr>uuids := us\<rparr>) of
        (Inl r, w2) \<Rightarrow> Some (r, w2)
      | (Inr uploadedFile, w2) \<Rightarrow>
          (case upload_staged env cfg request newVideoBasename
                  (Join targetLibraryDir newVideoBasename) uploadedFile w2 of
             (r, w3) \<Rightarrow> Some (r, os_Remove env uploadedFile w3))))))"

definition uploadHandler :: "env \<Rightarrow> config \<Rightarrow> library \<Rightarrow> request \<Rightarrow> world \<Rightarrow> (reply \<times> world) option" where
  "uploadHandler env cfg lib request w =
     (if Method request = ''GET'' then Some (Rendered ''upload'', w)
      else if Method request = ''POST'' then upload_post env cfg lib request w
      else Some (HttpError ''Method Not Allowed'' 405, w))"

section \<open>The import handler\<close>

text \<open>The argument lists of the two encoder calls of \<open>importHandler\<close>, and its loop
  over \<open>a.Config.Transcoder.Sizes\<close>.\<close>

definition import_video_args :: "video_info \<Rightarrow> path \<Rightarrow> path \<Rightarrow> arg list" where
  "import_video_args videoInfo uf tf =
     [Str ''ffmpeg'', Str ''-y'', Str ''-i'', File uf,
      Str ''-vcodec'', Str ''h264'', Str ''-acodec'', Str ''aac'',
      Str ''-strict'', Str ''-2'', Str ''-loglevel'', Str ''quiet'',
      Str ''-metadata'', Str (''title='' @ Title videoInfo),
      Str ''-metadata'', Str (''comment='' @ Description videoInfo),
      File tf]"

definition import_scaled_args :: "video_info \<Rightarrow> path \<Rightarrow> string \<Rightarrow> path \<Rightarrow> arg list" where
  "import_scaled_args videoInfo vf sz sf =
     [Str ''ffmpeg'', Str ''-y'', Str ''-i'', File vf, Str ''-s'', Str sz,
      Str ''-c:v'', Str ''libx264'', Str ''-c:a'', Str ''aac'', Str ''-crf'', Str ''18'',
      Str ''-strict'', Str ''-2'', Str ''-loglevel'', Str ''quiet'',
      Str ''-metadata'', Str (''title='' @ Title videoInfo),
      Str ''-metadata'', Str (''comment='' @ Description videoInfo),
      File sf]"

fun import_sizes ::
  "env \<Rightarrow> config \<Rightarrow> video_info \<Rightarrow> path \<Rightarrow> (string \<times> string) list \<Rightarrow> world
     \<Rightarrow> reply option \<times> world" where
  "import_sizes env cfg videoInfo vf [] w = (None, w)"
| "import_sizes env cfg videoInfo vf ((sz, suffix) # rest) w =
     (case RunCmd env (TranscoderTimeout cfg)
             (import_scaled_args videoInfo vf sz
                (addSuffix (trimExt vf) (''#'' @ suffix @ ''.mp4''))) w of
        (False, w1) \<Rightarrow> (Some (HttpError ''error transcoding video'' 500), w1)
      | (True, w1) \<Rightarrow> import_sizes env cfg videoInfo vf rest w1)"

text \<open>Thumbnail download, transcoding and the two renames into the collection (lines
  730 to 772): \<open>uf\<close> is the downloaded source, \<open>tf\<close> the transcoding target in the
  scratch directory, \<open>vf\<close> the final place of the video in the collection.\<close>

definition import_master ::
  "env \<Rightarrow> config \<Rightarrow> video_info \<Rightarrow> path \<Rightarrow> path \<Rightarrow> path \<Rightarrow> world \<Rightarrow> reply option \<times> world" where
  "import_master env cfg videoInfo uf tf vf w =
     (case Download env (ThumbnailURL videoInfo) (addSuffix (trimExt tf) ''.jpg'') w of
        (False, w1) \<Rightarrow> (Some (HttpError ''error downloading thumbnail'' 500), w1)
      | (True, w1) \<Rightarrow>
     (case RunCmd env (TranscoderTimeout cfg) (import_video_args videoInfo uf tf) w1 of
        (False, w2) \<Rightarrow> (Some (HttpError ''error transcoding video'' 500), w2)
      | (True, w2) \<Rightarrow>
     (case os_Rename env (addSuffix (trimExt tf) ''.jpg'') (addSuffix (trimExt vf) ''.jpg'') w2 of
        (False, w3) \<Rightarrow> (Some (HttpError ''error renaming generated thumbnail'' 500), w3)
      | (True, w3) \<Rightarrow>
     (case os_Rename env tf vf w3 of
        (False, w4) \<Rightarrow> (Some (HttpError ''error renaming transcoded video'' 500), w4)
      | (True, w4) \<Rightarrow> (None, w4)))))"

text \<open>From the thumbnail download to the end of the handler (lines 730 to 809).\<close>

definition import_publish ::
  "env \<Rightarrow> config \<Rightarrow> video_info \<Rightarrow> path \<Rightarrow> path \<Rightarrow> path \<Rightarrow> world \<Rightarrow> reply \<times> world" where
  "import_publish env cfg videoInfo uf tf vf w =
     (case import_master env cfg videoInfo uf tf vf w of
        (Some r, w4) \<Rightarrow> (r, w4)
      | (None, w4) \<Rightarrow>
     (case import_sizes env cfg videoInfo vf (Sizes cfg) w4 of
        (Some r, w5) \<Rightarrow> (r, w5)
      | (None, w5) \<Rightarrow> (Written ''Video successfully imported!'', w5)))"

text \<open>From the size request to the choice of the final name (lines 677 to 729).
  \<open>utils.SafeParseInt64(s, -1)\<close> is the parsed \<open>Content-Length\<close>, or \<open>-1\<close> when the
  header does not parse.\<close>

definition import_staged ::
  "env \<Rightarrow> config \<Rightarrow> library \<Rightarrow> string \<Rightarrow> video_info \<Rightarrow> path \<Rightarrow> world
     \<Rightarrow> (reply \<times> world) option" where
  "import_staged env cfg lib collection videoInfo uf w =
     (if \<not> head_ok env (VideoURL videoInfo)
      then Some (HttpError ''error getting size of video'' 500, emit (EvHead (VideoURL videoInfo)) w)
      else if (case content_length env (VideoURL videoInfo) of None \<Rightarrow> - 1 | Some n \<Rightarrow> n) = - 1
      then Some (HttpError ''error calculating size of video'' 500, emit (EvHead (VideoURL videoInfo)) w)
      else if (case content_length env (VideoURL videoInfo) of None \<Rightarrow> - 1 | Some n \<Rightarrow> n)
                > MaxUploadSize cfg
      then Some (HttpError ''imported video would exceed maximum upload size'' 500,
                 emit (EvHead (VideoURL videoInfo)) w)
      else
     (case Download env (VideoURL videoInfo) uf (emit (EvHead (VideoURL videoInfo)) w) of
        (False, w2) \<Rightarrow> Some (HttpError ''error downloading video'' 500, w2)
      | (True, w2) \<Rightarrow>
     (case TempFile env (UploadPath cfg) ''tube-transcode-*.mp4'' w2 of
        (None, w3) \<Rightarrow> Some (HttpError ''error creating temporary file for transcoding'' 500, w3)
      | (Some tf, w3) \<Rightarrow>
     (case map_of (Paths lib) collection of
        None \<Rightarrow> Some (Panic ''nil pointer dereference'', w3)
      | Some col \<Rightarrow>
     (case uuids w3 of
        [] \<Rightarrow> None
      | u # us \<Rightarrow>
          Some (import_publish env cfg videoInfo uf tf (Join (Path col) (u @ ''.mp4''))
                  (w3\<lparr>uuids := us\<rparr>)))))))"

text \<open>The POST branch of \<open>importHandler\<close>: the target is the first of the sorted keys of
  \<open>a.Library.Paths\<close>; indexing an empty slice panics.  The deferred
  \<open>os.Remove(uf.Name())\<close> runs last.\<close>

definition import_post :: "env \<Rightarrow> config \<Rightarrow> library \<Rightarrow> request \<Rightarrow> world \<Rightarrow> (reply \<times> world) option" where
  "import_post env cfg lib request w =
     (if FormValue request ''url'' = [] then Some (HttpError ''error, no url supplied'' 400, w)
      else
     (case sort (map fst (Paths lib)) of
        [] \<Rightarrow> Some (Panic ''index out of range'', w)
      | collection # _ \<Rightarrow>
          if \<not> importer_ok env (FormValue request ''url'')
          then Some (HttpError ''error creating video importer'' 500, w)
          else
     (case get_video_info env (FormValue request ''url'') of
        None \<Rightarrow> Some (HttpError ''error retrieving video info'' 500, w)
      | Some videoInfo \<Rightarrow>
     (case TempFile env (UploadPath cfg) ''tube-import-*.mp4'' w of
        (None, w1) \<Rightarrow> Some (HttpError ''error creating temporary file for importing'' 500, w1)
      | (Some uf, w1) \<Rightarrow>
          (case import_staged env cfg lib collection videoInfo uf w1 of
             None \<Rightarrow> None
           | Some (r, w2) \<Rightarrow> Some (r, os_Remove env uf w2))))))"

definition importHandler :: "env \<Rightarrow> config \<Rightarrow> library \<Rightarrow> request \<Rightarrow> world \<Rightarrow> (reply \<times> world) option" where
  "importHandler env cfg lib request w =
     (if Method request = ''GET'' then Some (Rendered ''import'', w)
      else if Method request = ''POST'' then import_post env cfg lib request w
      else Some (HttpError ''Method Not Allowed'' 405, w))"

section \<open>The playback handler\<close>

text \<open>
  The calls \<open>videoHandler\<close> makes, in the order it makes them: on the view store, on
  the response writer, and on the encoder process of the on-the-fly path.  A run either
  returns or blocks in a call that never returns.
\<close>

datatype call =
    StoreMigrate string string
  | StoreIncViews string
  | SetHeader string string
  | ExecCommand "string list"
  | StderrPipe
  | CopyStderr
  | StdoutPipe
  | CmdStart
  | ProcessKill
  | StdoutRead nat
  | BodyWrite nat
  | BodyFlush
  | HttpErr string nat
  | ServeFile string

datatype ending = Returned | Blocked

datatype process = Prepared | Started

text \<open>
  What the playback handler meets outside \<open>app.go\<close>: whether a file is there, whether the
  two pipes and the start of the process succeed, what the successive reads of the
  encoder's standard output return (a byte count, and whether the error is one other
  than end of file; past the list a read returns nothing), whether the write of the
  \<open>i\<close>-th chunk to the response succeeds, and whether the response writer can flush.
\<close>

record stream_env =
  file_exists :: "string \<Rightarrow> bool"
  stderr_pipe_ok :: bool
  stdout_pipe_ok :: bool
  start_ok :: bool
  reads :: "(nat \<times> bool) list"
  write_ok :: "nat \<Rightarrow> bool"
  can_flush :: bool

text \<open>Modelled from the spec: \<open>utils.FileExists\<close> is not among the sources.  Section 4.4
  speaks of a derivative file that is absent; whether the file is there is a parameter.\<close>

definition FileExists :: "stream_env \<Rightarrow> string \<Rightarrow> bool" where
  "FileExists env p = file_exists env p"

text \<open>\<open>strings.ToLower\<close> on the letters of ASCII, and \<open>path.Join\<close> of two elements (empty
  elements are ignored, the result is cleaned, and it is empty when both are).\<close>

definition ToLower :: "string \<Rightarrow> string" where
  "ToLower s =
     map (\<lambda>c. case map_of (zip ''ABCDEFGHIJKLMNOPQRSTUVWXYZ'' ''abcdefghijklmnopqrstuvwxyz'') c of
                 None \<Rightarrow> c | Some l \<Rightarrow> l) s"

definition path_Join :: "string \<Rightarrow> string \<Rightarrow> string" where
  "path_Join a b =
     (if a = [] \<and> b = [] then []
      else if a = [] then Clean b
      else if b = [] then Clean a
      else Clean (a @ ''/'' @ b))"

definition disposition :: "string \<Rightarrow> string" where
  "disposition title = ''attachment; filename='' @ [CHR 0x22] @ title @ ''.mp4'' @ [CHR 0x22]"

definition otf_args :: "string \<Rightarrow> string list" where
  "otf_args videoPath =
     [''ffmpeg'', ''-y'', ''-s'', ''320x200'', ''-vcodec'', ''h264'', ''-acodec'', ''aac'',
      ''-strict'', ''-2'', ''-loglevel'', ''debug'', ''-i'', videoPath, ''-f'', ''mp4'',
      ''-movflags'', ''frag_keyframe+empty_moov'', ''-'']"

text \<open>
  A read on a pipe returns when there is data or when every write end is closed.  The
  write end of the pipe that \<open>cmd.StderrPipe()\<close> makes stays open in this process until
  \<open>cmd.Start()\<close> hands it to the child and closes it; before that nothing writes to it.
  So \<open>io.Copy(os.Stdout, stderr)\<close>, which reads until end of file, returns only for a
  process that has been started (when that process closes its standard error).
\<close>

fun copy_returns :: "process \<Rightarrow> bool" where
  "copy_returns Prepared = False"
| "copy_returns Started = True"

text \<open>The loop that forwards the encoder's output (lines 1005 to 1022): it ends when a
  read returns no bytes, and returns from the handler after \<open>http.Error\<close> when a read or
  a write fails.\<close>

fun stream_loop :: "stream_env \<Rightarrow> (nat \<times> bool) list \<Rightarrow> nat \<Rightarrow> call list \<Rightarrow> call list" where
  "stream_loop env [] i tr = tr @ [StdoutRead 0]"
| "stream_loop env ((n, failed) # rs) i tr =
     (if n = 0 then tr @ [StdoutRead 0]
      else if failed then tr @ [StdoutRead n, HttpErr ''error reading from ffmpeg stdout'' 500]
      else if write_ok env i
      then stream_loop env rs (Suc i)
             (tr @ [StdoutRead n, BodyWrite n] @ (if can_flush env then [BodyFlush] else []))
      else tr @ [StdoutRead n, BodyWrite n, HttpErr ''error writing to response'' 500])"

text \<open>
  The on-the-fly branch (lines 960 to 1023), statement by statement: the command is
  built, its standard-error pipe is made, \<open>io.Copy\<close> reads that pipe to its end, then
  come the standard-output pipe, \<open>cmd.Start()\<close>, the deferred \<open>cmd.Process.Kill()\<close>
  (it runs on every return after it), the second \<open>Content-Type\<close> header and the loop.
  The goroutine that logs the standard error writes nothing to the response and is left
  out.
\<close>

definition on_the_fly :: "stream_env \<Rightarrow> string \<Rightarrow> call list \<Rightarrow> ending \<times> call list" where
  "on_the_fly env videoPath tr =
     (if \<not> stderr_pipe_ok env
      then (Returned, tr @ [ExecCommand (otf_args videoPath), StderrPipe,
                            HttpErr ''error creating stderr pipe'' 500])
      else if \<not> copy_returns Prepared
      then (Blocked, tr @ [ExecCommand (otf_args videoPath), StderrPipe, CopyStderr])
      else if \<not> stdout_pipe_ok env
      then (Returned, tr @ [ExecCommand (otf_args videoPath), StderrPipe, CopyStderr, StdoutPipe,
                            HttpErr ''error creating stdout pipe'' 500])
      else if \<not> start_ok env
      then (Returned, tr @ [ExecCommand (otf_args videoPath), StderrPipe, CopyStderr, StdoutPipe,
                            CmdStart, HttpErr ''error starting ffmpeg'' 500])
      else (Returned,
            stream_loop env (reads env) 0
              (tr @ [ExecCommand (otf_args videoPath), StderrPipe, CopyStderr, StdoutPipe,
                     CmdStart, SetHeader ''Content-Type'' ''video/mp4''])
            @ [ProcessKill]))"

text \<open>
  \<open>videoHandler\<close> (lines 902 to 1028).  The errors of \<open>Store.Migrate\<close> and
  \<open>Store.IncViews\<close> are only logged.
\<close>

definition videoHandler :: "stream_env \<Rightarrow> library \<Rightarrow> request \<Rightarrow> ending \<times> call list" where
  "videoHandler env lib request =
     (let id0 = (case Vars request ''id'' of None \<Rightarrow> [] | Some i \<Rightarrow> i);
          prefix = (case Vars request ''prefix'' of None \<Rightarrow> [] | Some p \<Rightarrow> p);
          id = (case Vars request ''prefix'' of None \<Rightarrow> id0 | Some p \<Rightarrow> path_Join p id0)
      in case Videos lib id of
           None \<Rightarrow> (Returned, [])
         | Some m \<Rightarrow>
             (let quality = ToLower (Query request ''quality'');
                  known = (quality \<in> set [''720p'', ''480p'', ''360p'', ''240p'']);
                  derivative = TrimSuffix (VPath m) (Ext (VPath m)) @ ''#'' @ quality @ ''.mp4'';
                  videoPath = (if known then derivative else VPath m);
                  otf = (known \<and> \<not> FileExists env derivative);
                  tr = [StoreMigrate prefix id, StoreIncViews id,
                        SetHeader ''Content-Disposition'' (disposition (VTitle m)),
                        SetHeader ''Content-Type'' ''video/mp4'']
              in if otf then on_the_fly env videoPath tr
                 else (Returned, tr @ [ServeFile videoPath])))"

section \<open>Reading a run\<close>

text \<open>
  The calls a run has added to the trace; the file a call writes (by creating, copying,
  downloading, encoding or renaming); whether a call puts a file into a directory; and
  whether it is a resize run of the encoder (the \<open>-s\<close> option, which only the derivative
  loops pass).
\<close>

definition new_events :: "world \<Rightarrow> world \<Rightarrow> event list" where
  "new_events w w' = drop (length (trace w)) (trace w')"







section \<open>Concrete inputs\<close>

text \<open>
  A run in which every external step succeeds: one collection \<open>videos\<close>, the scratch
  directory \<open>uploads\<close>, a size limit of 100 bytes, no filename preservation, and an
  upload form carrying the file \<open>cat.mov\<close>.
\<close>

definition env_ok :: env where
  "env_ok = \<lparr>temp_rand = (\<lambda>dir pattern. Some ''001''),
     copy_ok = (\<lambda>p. True),
     securejoin_ok = (\<lambda>dir name. True),
     stat_fails = (\<lambda>p. False),
     create_ok = (\<lambda>p. True),
     run_outcome = (\<lambda>args. Done),
     rename_ok = (\<lambda>a b. True),
     importer_ok = (\<lambda>url. True),
     get_video_info = (\<lambda>url. Some \<lparr>VideoURL = ''http://media/v'', ThumbnailURL = ''http://media/t'',
                                    Title = ''Test'', Description = ''Demo''\<rparr>),
     head_ok = (\<lambda>url. True),
     content_length = (\<lambda>url. Some 50),
     download_outcome = (\<lambda>url p. Done),
     real_dir = (\<lambda>d. d)\<rparr>"

definition cfg0 :: config where
  "cfg0 = \<lparr>UploadPath = ''uploads'', ServerPreserveUploadFilename = False, MaxUploadSize = 100,
     ThumbnailerTimeout = 60, PositionFromStart = 3, TranscoderTimeout = 300, Sizes = []\<rparr>"

definition lib0 :: library where
  "lib0 = \<lparr>Paths = [(''videos'', \<lparr>Path = ''videos'', Prefix = [], PreserveUploadFilename = False\<rparr>)],
     Videos = Map.empty\<rparr>"

definition w0 :: world where
  "w0 = \<lparr>files = Map.empty, trace = [], uuids = [''tok1'', ''tok2'']\<rparr>"

definition upload_req :: "string \<Rightarrow> int \<Rightarrow> request" where
  "upload_req target n = \<lparr>Method = ''POST'',
     FormValue = (\<lambda>k. if k = ''target_library_path'' then target
                      else if k = ''video_title'' then ''Test''
                      else if k = ''video_description'' then ''Demo'' else []),
     FormFile = Some (''cat.mov'', n), Vars = Map.empty, Query = (\<lambda>k. [])\<rparr>"

definition import_req :: "string \<Rightarrow> request" where
  "import_req url = \<lparr>Method = ''POST'',
     FormValue = (\<lambda>k. if k = ''url'' then url else []),
     FormFile = None, Vars = Map.empty, Query = (\<lambda>k. [])\<rparr>"

definition lib_empty :: library where
  "lib_empty = \<lparr>Paths = [], Videos = Map.empty\<rparr>"

text \<open>
  Variations: one size profile \<open>hd720\<close> with suffix \<open>720p\<close>; a scratch directory that is
  the collection \<open>videos\<close> itself, spelled \<open>videos/\<close>, without and with the size profile;
  an encoder that fails on
  every resize run and leaves a partial file; a file system on which every rename fails
  (the scratch directory on another device, say); an encoder that always fails.
\<close>

definition cfg_sizes :: config where
  "cfg_sizes = cfg0\<lparr>Sizes := [(''hd720'', ''720p'')]\<rparr>"




definition env_rename_fails :: env where
  "env_rename_fails = env_ok\<lparr>rename_ok := (\<lambda>a b. False)\<rparr>"

definition env_encoder_fails :: env where
  "env_encoder_fails = env_ok\<lparr>run_outcome := (\<lambda>args. Failed False)\<rparr>"

text \<open>
  A playback request for the catalogued video \<open>cat\<close>, whose file is \<open>videos/cat.mp4\<close>,
  in the quality \<open>720p\<close>; on disk there is the master and no derivative; the pipes and
  the start of the encoder would succeed, the encoder would yield two chunks, and every
  write to the response would succeed.
\<close>

definition lib_cat :: library where
  "lib_cat = lib0\<lparr>Videos := [''cat'' \<mapsto> \<lparr>VPath = ''videos/cat.mp4'', VTitle = ''Cat''\<rparr>]\<rparr>"

definition playback_req :: "string \<Rightarrow> string \<Rightarrow> request" where
  "playback_req ident quality = \<lparr>Method = ''GET'', FormValue = (\<lambda>k. []), FormFile = None,
     Vars = [''id'' \<mapsto> ident],
     Query = (\<lambda>k. if k = ''quality'' then quality else [])\<rparr>"

definition stream_env_ok :: stream_env where
  "stream_env_ok = \<lparr>file_exists = (\<lambda>p. p = ''videos/cat.mp4''),
     stderr_pipe_ok = True, stdout_pipe_ok = True, start_ok = True,
     reads = [(1024, False), (512, False)], write_ok = (\<lambda>i. True), can_flush = True\<rparr>"

section \<open>Properties\<close>

lemmas prim_defs = TempFile_def prefixAndSuffix_def io_Copy_def os_Create_def os_Remove_def
  os_Rename_def RunCmd_def Download_def output_of_def write_result_def put_def emit_def locate_def

lemmas name_defs = Join_def Clean_def clean_step_def Ext_def Base_def TrimSuffix_def
  basenameWithoutExtension_def pathWithoutExtension_def trimExt_def addSuffix_def

lemmas upload_defs = uploadHandler_def upload_post_def upload_staged_def upload_transcode_def
  upload_publish_def
  getSelectedTargetLibraryDir_def extractFormFile_def newVideoFileName_def fileExistsAtLocation_def
  copyFileFromFormToUploadDir_def getTranscodedPath_def createVideo_def createThumbnail_def
  createScaledVideo_def video_args_def thumbnail_args_def scaled_args_def

lemmas import_defs = importHandler_def import_post_def import_staged_def import_publish_def
  import_master_def
  import_video_args_def import_scaled_args_def

lemmas fixture_defs = env_ok_def cfg0_def lib0_def w0_def upload_req_def import_req_def lib_empty_def

subsection \<open>Name resolution swallows a failed existence check\<close>

lemma collision_loop_no_return:
  "collision_loop env fs cand locs n us \<noteq> Some (Return e, us')"
  by (induction us arbitrary: n) (auto split: prod.splits)

lemma collision_loop_exit_on_error:
  assumes "snd (fileExistsAtAnyLocation env fs n locs) \<noteq> None"
  shows "collision_loop env fs cand locs n us = Some (Exit n, us)"
  using assms by (cases us) (auto split: prod.splits)

lemma newVideoFileName_error_first_check:
  assumes "cand \<noteq> []"
    and "snd (fileExistsAtAnyLocation env fs (basenameWithoutExtension cand @ ''.mp4'') locs) \<noteq> None"
  shows "newVideoFileName env fs cand locs us =
           Some ((basenameWithoutExtension cand @ ''.mp4'', None, None), us)"
  using assms by (simp add: newVideoFileName_def collision_loop_exit_on_error)

lemma newVideoFileName_never_fails:
  assumes "newVideoFileName env fs cand locs us = Some ((name, err, wrote), us')"
  shows "err = None \<and> wrote = None"
  using assms
  by (auto simp: newVideoFileName_def collision_loop_no_return
           split: if_splits option.splits list.splits prod.splits loop_exit.splits)

text \<open>
  Claim C10.  In \<open>newVideoFileName\<close>, when the existence check
  (\<open>fileExistsAtAnyLocation\<close>) returns an error for the current name, the collision loop
  leaves through its condition with that name; the function then returns the name with a
  nil error (shown for the first check of a non-empty candidate).  The loop never returns
  from its error branch, and whatever the function returns, its error is nil and it wrote
  nothing to the response: a failed existence check is swallowed.
\<close>

theorem newVideoFileName_swallows_check_error:
  "(snd (fileExistsAtAnyLocation env fs n locs) \<noteq> None \<longrightarrow>
      collision_loop env fs cand locs n us = Some (Exit n, us))
   \<and> (cand \<noteq> [] \<and>
        snd (fileExistsAtAnyLocation env fs (basenameWithoutExtension cand @ ''.mp4'') locs) \<noteq> None \<longrightarrow>
      newVideoFileName env fs cand locs us =
        Some ((basenameWithoutExtension cand @ ''.mp4'', None, None), us))
   \<and> collision_loop env fs cand locs n us \<noteq> Some (Return e, us')
   \<and> (newVideoFileName env fs cand locs us = Some ((name, err, wrote), us') \<longrightarrow>
        err = None \<and> wrote = None)"
  using collision_loop_exit_on_error [of env fs n locs cand us]
    newVideoFileName_error_first_check [of cand env fs locs us]
    collision_loop_no_return [of env fs cand locs n us e us']
    newVideoFileName_never_fails [of env fs cand locs us name err wrote us']
  by blast

theorem newVideoFileName_swallows_check_error_witness:
  "snd (fileExistsAtAnyLocation (env_ok\<lparr>stat_fails := \<lambda>p. True\<rparr>) Map.empty ''cat.mp4''
          [''videos'', ''uploads'']) = Some StatError
   \<and> collision_loop (env_ok\<lparr>stat_fails := \<lambda>p. True\<rparr>) Map.empty ''cat.mov''
          [''videos'', ''uploads''] ''cat.mp4'' [''tok1''] = Some (Exit ''cat.mp4'', [''tok1''])
   \<and> newVideoFileName (env_ok\<lparr>stat_fails := \<lambda>p. True\<rparr>) Map.empty ''cat.mov''
          [''videos'', ''uploads''] [''tok1''] = Some ((''cat.mp4'', None, None), [''tok1''])"
proof -
  have b: "basenameWithoutExtension ''cat.mov'' = ''cat''"
    by (simp add: name_defs)
  have h: "snd (fileExistsAtAnyLocation (env_ok\<lparr>stat_fails := \<lambda>p. True\<rparr>) Map.empty ''cat.mp4''
                  [''videos'', ''uploads'']) = Some StatError"
    by (simp add: fileExistsAtLocation_def env_ok_def)
  show ?thesis
    using h b newVideoFileName_swallows_check_error
      [of "env_ok\<lparr>stat_fails := \<lambda>p. True\<rparr>" Map.empty "''cat.mp4''" "[''videos'', ''uploads'']"
          "''cat.mov''" "[''tok1'']" None "[''tok1'']" "''cat.mp4''" None None]
    by simp
qed

subsection \<open>An unknown target collection\<close>

text \<open>
  Claim C7.  An upload request (POST) whose target collection is not registered in the
  library is answered with \<open>http.Error\<close> and leaves the world as it was: no file is
  created, no command is run, nothing is renamed, no token is drawn.
\<close>

theorem upload_unknown_target_no_effect:
  assumes "Method request = ''POST''"
    and "map_of (Paths lib) (FormValue request ''target_library_path'') = None"
  shows "uploadHandler env cfg lib request w =
           Some (HttpError (''uploading to invalid library path: ''
                            @ FormValue request ''target_library_path'') 500, w)"
  using assms
  by (simp add: uploadHandler_def upload_post_def getSelectedTargetLibraryDir_def)

theorem upload_unknown_target_no_effect_witness:
  "Method (upload_req ''nowhere'' 10) = ''POST''
   \<and> map_of (Paths lib0) (FormValue (upload_req ''nowhere'' 10) ''target_library_path'') = None
   \<and> uploadHandler env_ok cfg0 lib0 (upload_req ''nowhere'' 10) w0 =
       Some (HttpError ''uploading to invalid library path: nowhere'' 500, w0)"
  using upload_unknown_target_no_effect [of "upload_req ''nowhere'' 10" lib0 env_ok cfg0 w0]
  by (simp add: fixture_defs)

subsection \<open>Import with no collection configured\<close>

text \<open>
  Claim C9, as stated, fails for a POST without a URL: the handler answers 400 before it
  looks at the collections, whether or not any is configured.
\<close>

theorem import_no_collection_counterexample:
  "Method (import_req []) = ''POST'' \<and> Paths lib_empty = []
   \<and> importHandler env_ok cfg0 lib_empty (import_req []) w0 =
       Some (HttpError ''error, no url supplied'' 400, w0)"
  by (simp add: importHandler_def import_post_def fixture_defs)

text \<open>
  Claim C9, amended.  A POST to the import entry point that carries a non-empty URL
  while no collection is configured panics: the sorted key slice is empty and the handler
  indexes its first element.  Nothing has been done before, and no validation error is
  written.
\<close>

theorem import_no_collection_panics:
  assumes "Method request = ''POST''"
    and "FormValue request ''url'' \<noteq> []"
    and "Paths lib = []"
  shows "importHandler env cfg lib request w = Some (Panic ''index out of range'', w)"
  using assms by (simp add: importHandler_def import_post_def)

theorem import_no_collection_panics_witness:
  "Method (import_req ''http://site/v'') = ''POST''
   \<and> FormValue (import_req ''http://site/v'') ''url'' \<noteq> []
   \<and> Paths lib_empty = []
   \<and> importHandler env_ok cfg0 lib_empty (import_req ''http://site/v'') w0 =
       Some (Panic ''index out of range'', w0)"
  using import_no_collection_panics [of "import_req ''http://site/v''" lib_empty env_ok cfg0 w0]
  by (simp add: fixture_defs)

subsection \<open>File names and primitive steps\<close>














lemma RunCmd_failed_outcome:
  "RunCmd env t args w = (False, w') \<Longrightarrow> run_outcome env args \<noteq> Done"
  by (auto simp: RunCmd_def split: outcome.splits)






















lemma os_Remove_uuids: "uuids (os_Remove env p w) = uuids w"
  by (simp add: os_Remove_def emit_def)

























lemma prefixAndSuffix_import:
  "prefixAndSuffix ''tube-import-*.mp4'' = (''tube-import-'', ''.mp4'')"
  by (simp add: prefixAndSuffix_def)








subsection \<open>Runs of the upload handler\<close>



subsection \<open>Runs of the import handler\<close>







subsection \<open>Publication is two renames\<close>






subsection \<open>A failed derivative does not unwind the publication\<close>









subsection \<open>Inputs on which the code departs from its description\<close>

text \<open>
  Claim C2.  The upload handler never reads \<open>MaxUploadSize\<close>: with a limit of 100 bytes
  an uploaded file of 200 bytes is staged, transcoded and published, and the caller is
  told it succeeded.  (The import handler compares the declared content length with the
  limit before it downloads.)
\<close>

theorem upload_accepts_oversized_file:
  "MaxUploadSize cfg0 = 100
   \<and> FormFile (upload_req ''videos'' 200) = Some (''cat.mov'', 200)
   \<and> map_option fst (uploadHandler env_ok cfg0 lib0 (upload_req ''videos'' 200) w0)
       = Some (Written ''Video successfully uploaded!'')
   \<and> trace (snd (the (uploadHandler env_ok cfg0 lib0 (upload_req ''videos'' 200) w0)))
       = [EvTempFile (''uploads'', ''tube-upload-001.mov''),
          EvCopy (''uploads'', ''tube-upload-001.mov''),
          EvCreate (''uploads'', ''cat.mp4''),
          EvRunCmd 300 (video_args (''uploads'', ''tube-upload-001.mov'') (''uploads'', ''cat.mp4'')
                          ''Test'' ''Demo''),
          EvRunCmd 60 (thumbnail_args (''uploads'', ''tube-upload-001.mov'') (''uploads'', ''cat.jpg'') 3),
          EvRename (''uploads'', ''cat.jpg'') (''videos'', ''cat.jpg''),
          EvRename (''uploads'', ''cat.mp4'') (''videos'', ''cat.mp4''),
          EvRemove (''uploads'', ''cat.mp4''),
          EvRemove (''uploads'', ''tube-upload-001.mov'')]"
  by (simp add: upload_defs prim_defs name_defs fixture_defs)

text \<open>The import handler, for comparison: a declared content length over the limit is
  refused after the size request; the temporary file made before it is removed, and
  nothing is downloaded, encoded or renamed.\<close>

lemma import_rejects_declared_oversize:
  assumes "Method request = ''POST''" and "FormValue request ''url'' \<noteq> []"
    and "sort (map fst (Paths lib)) = k # ks"
    and "importer_ok env (FormValue request ''url'')"
    and "get_video_info env (FormValue request ''url'') = Some vi"
    and "temp_rand env (UploadPath cfg) ''tube-import-*.mp4'' = Some rnd"
    and "head_ok env (VideoURL vi)"
    and "content_length env (VideoURL vi) = Some n" and "n \<noteq> - 1" and "MaxUploadSize cfg < n"
  shows "map_option fst (importHandler env cfg lib request w)
           = Some (HttpError ''imported video would exceed maximum upload size'' 500)"
    and "new_events w (snd (the (importHandler env cfg lib request w)))
           = [EvTempFile (Clean (UploadPath cfg), ''tube-import-'' @ rnd @ ''.mp4''), EvHead (VideoURL vi),
              EvRemove (Clean (UploadPath cfg), ''tube-import-'' @ rnd @ ''.mp4'')]"
  using assms
  by (simp_all add: importHandler_def import_post_def import_staged_def TempFile_def Join_def
        prefixAndSuffix_import os_Remove_def emit_def put_def new_events_def)

text \<open>
  Claim C3.  With filename preservation disabled, globally and for the target
  collection, the upload handler still takes the stem of the client's file name:
  \<open>cat.mov\<close> is published as \<open>cat.mp4\<close> and no random token is drawn.
  \<open>preserveUploadFilenameIsEnabled\<close> is defined in \<open>app.go\<close> and called nowhere.
\<close>

theorem upload_keeps_client_name_without_preservation:
  "preserveUploadFilenameIsEnabled cfg0 lib0 ''videos'' = Some False
   \<and> newVideoFileName env_ok (files w0) ''cat.mov'' [''videos'', UploadPath cfg0] (uuids w0)
       = Some ((''cat.mp4'', None, None), [''tok1'', ''tok2''])
   \<and> map_option fst (uploadHandler env_ok cfg0 lib0 (upload_req ''videos'' 50) w0)
       = Some (Written ''Video successfully uploaded!'')
   \<and> files (snd (the (uploadHandler env_ok cfg0 lib0 (upload_req ''videos'' 50) w0)))
         (''videos'', ''cat.mp4'')
       = Some (Encoded (video_args (''uploads'', ''tube-upload-001.mov'') (''uploads'', ''cat.mp4'')
                          ''Test'' ''Demo''))
   \<and> uuids (snd (the (uploadHandler env_ok cfg0 lib0 (upload_req ''videos'' 50) w0)))
       = [''tok1'', ''tok2'']"
  by (simp add: preserveUploadFilenameIsEnabled_def upload_defs prim_defs name_defs fixture_defs)

text \<open>More generally, no run of the upload handler depends on either preservation
  flag.\<close>

lemma upload_sizes_preserve_flag:
  "upload_sizes env (cfg\<lparr>ServerPreserveUploadFilename := b\<rparr>) up tv nv title descr sizes w
     = upload_sizes env cfg up tv nv title descr sizes w"
  by (induction sizes arbitrary: w) (auto split: prod.splits bool.splits)

lemma map_of_set_flag:
  "map_of (map (\<lambda>(k, p). (k, p\<lparr>PreserveUploadFilename := c\<rparr>)) xs) t
     = map_option (\<lambda>p. p\<lparr>PreserveUploadFilename := c\<rparr>) (map_of xs t)"
  by (induction xs) auto

lemma upload_publish_preserve_flag:
  "upload_publish env (cfg\<lparr>ServerPreserveUploadFilename := b\<rparr>) request nv up tv w
     = upload_publish env cfg request nv up tv w"
  by (simp add: upload_publish_def cong: prod.case_cong bool.case_cong)

lemma upload_transcode_preserve_flag:
  "upload_transcode env (cfg\<lparr>ServerPreserveUploadFilename := b\<rparr>) request nv up tv w
     = upload_transcode env cfg request nv up tv w"
  by (simp add: upload_transcode_def upload_publish_preserve_flag upload_sizes_preserve_flag
        cong: prod.case_cong option.case_cong)

lemma upload_staged_preserve_flag:
  "upload_staged env (cfg\<lparr>ServerPreserveUploadFilename := b\<rparr>) request n nv up w
     = upload_staged env cfg request n nv up w"
  by (simp add: upload_staged_def getTranscodedPath_def upload_transcode_preserve_flag
        cong: prod.case_cong bool.case_cong)

lemma copyFileFromFormToUploadDir_preserve_flag:
  "copyFileFromFormToUploadDir env (cfg\<lparr>ServerPreserveUploadFilename := b\<rparr>) fn w
     = copyFileFromFormToUploadDir env cfg fn w"
  by (simp add: copyFileFromFormToUploadDir_def
        cong: prod.case_cong option.case_cong bool.case_cong)

lemma upload_ignores_preservation_flags:
  "uploadHandler env (cfg\<lparr>ServerPreserveUploadFilename := b\<rparr>)
     (lib\<lparr>Paths := map (\<lambda>(k, p). (k, p\<lparr>PreserveUploadFilename := c\<rparr>)) (Paths lib)\<rparr>) request w
   = uploadHandler env cfg lib request w"
proof -
  have t: "getSelectedTargetLibraryDir
             (lib\<lparr>Paths := map (\<lambda>(k, p). (k, p\<lparr>PreserveUploadFilename := c\<rparr>)) (Paths lib)\<rparr>) request
           = getSelectedTargetLibraryDir lib request"
    by (simp add: getSelectedTargetLibraryDir_def map_of_set_flag split: option.splits)
  show ?thesis
    by (simp add: uploadHandler_def upload_post_def t upload_staged_preserve_flag
          copyFileFromFormToUploadDir_preserve_flag
          cong: sum.case_cong prod.case_cong option.case_cong if_cong)
qed

text \<open>
  Claim C4.  In the import pipeline the resize run of the encoder reads the published
  master in the collection (\<open>-i videos/tok1.mp4\<close>), not the staged source, and writes
  \<open>tok1#720p.mp4\<close> straight into the collection; no rename follows it.
\<close>

theorem import_derivative_reads_published_master:
  "map_option fst (importHandler env_ok cfg_sizes lib0 (import_req ''http://site/v'') w0)
       = Some (Written ''Video successfully imported!'')
   \<and> trace (snd (the (importHandler env_ok cfg_sizes lib0 (import_req ''http://site/v'') w0)))
       = [EvTempFile (''uploads'', ''tube-import-001.mp4''),
          EvHead ''http://media/v'',
          EvDownload ''http://media/v'' (''uploads'', ''tube-import-001.mp4''),
          EvTempFile (''uploads'', ''tube-transcode-001.mp4''),
          EvDownload ''http://media/t'' (''uploads'', ''tube-transcode-001.jpg''),
          EvRunCmd 300
            [Str ''ffmpeg'', Str ''-y'', Str ''-i'', File (''uploads'', ''tube-import-001.mp4''),
             Str ''-vcodec'', Str ''h264'', Str ''-acodec'', Str ''aac'', Str ''-strict'', Str ''-2'',
             Str ''-loglevel'', Str ''quiet'', Str ''-metadata'', Str ''title=Test'',
             Str ''-metadata'', Str ''comment=Demo'', File (''uploads'', ''tube-transcode-001.mp4'')],
          EvRename (''uploads'', ''tube-transcode-001.jpg'') (''videos'', ''tok1.jpg''),
          EvRename (''uploads'', ''tube-transcode-001.mp4'') (''videos'', ''tok1.mp4''),
          EvRunCmd 300
            [Str ''ffmpeg'', Str ''-y'', Str ''-i'', File (''videos'', ''tok1.mp4''),
             Str ''-s'', Str ''hd720'', Str ''-c:v'', Str ''libx264'', Str ''-c:a'', Str ''aac'',
             Str ''-crf'', Str ''18'', Str ''-strict'', Str ''-2'', Str ''-loglevel'', Str ''quiet'',
             Str ''-metadata'', Str ''title=Test'', Str ''-metadata'', Str ''comment=Demo'',
             File (''videos'', ''tok1#720p.mp4'')],
          EvRemove (''uploads'', ''tube-import-001.mp4'')]"
  by (simp add: import_defs prim_defs name_defs fixture_defs cfg_sizes_def)

text \<open>
  Claim C6.  Scratch files survive failed runs.  When the rename of the thumbnail fails,
  the upload handler returns and the thumbnail \<open>cat.jpg\<close> stays in the scratch
  directory.  When the transcoder fails, the import handler returns and both the
  transcoding target \<open>tube-transcode-001.mp4\<close> and the downloaded thumbnail stay there:
  only the downloaded source has a deferred removal.
\<close>

theorem scratch_files_left_after_failure:
  "map_option fst (uploadHandler env_rename_fails cfg0 lib0 (upload_req ''videos'' 50) w0)
       = Some (HttpError ''error renaming generated thumbnail'' 500)
   \<and> files (snd (the (uploadHandler env_rename_fails cfg0 lib0 (upload_req ''videos'' 50) w0)))
         (''uploads'', ''cat.jpg'')
       = Some (Encoded (thumbnail_args (''uploads'', ''tube-upload-001.mov'') (''uploads'', ''cat.jpg'') 3))
   \<and> map_option fst (importHandler env_encoder_fails cfg0 lib0 (import_req ''http://site/v'') w0)
       = Some (HttpError ''error transcoding video'' 500)
   \<and> files (snd (the (importHandler env_encoder_fails cfg0 lib0 (import_req ''http://site/v'') w0)))
         (''uploads'', ''tube-transcode-001.mp4'')
       = Some Empty
   \<and> files (snd (the (importHandler env_encoder_fails cfg0 lib0 (import_req ''http://site/v'') w0)))
         (''uploads'', ''tube-transcode-001.jpg'')
       = Some (Fetched ''http://media/t'')"
  by (simp add: upload_defs import_defs prim_defs name_defs fixture_defs
        env_rename_fails_def env_encoder_fails_def)

text \<open>
  Claim C8.  A playback request for \<open>cat\<close> in \<open>720p\<close>, with \<open>videos/cat#720p.mp4\<close>
  absent, takes the on-the-fly branch.  The handler sets the headers, builds the encoder
  command, whose input (\<open>-i\<close>) is the absent derivative \<open>videos/cat#720p.mp4\<close> and not
  the master, makes the standard-error pipe and copies from it before the process is
  started: the run blocks there.  The encoder is never started, nothing is written to
  the response, and no process is killed.
\<close>

theorem on_the_fly_playback_blocks_before_start:
  "Videos lib_cat ''cat'' = Some \<lparr>VPath = ''videos/cat.mp4'', VTitle = ''Cat''\<rparr>
   \<and> FileExists stream_env_ok ''videos/cat.mp4''
   \<and> \<not> FileExists stream_env_ok ''videos/cat#720p.mp4''
   \<and> videoHandler stream_env_ok lib_cat (playback_req ''cat'' ''720p'')
       = (Blocked,
          [StoreMigrate [] ''cat'', StoreIncViews ''cat'',
           SetHeader ''Content-Disposition'' (disposition ''Cat''),
           SetHeader ''Content-Type'' ''video/mp4'',
           ExecCommand [''ffmpeg'', ''-y'', ''-s'', ''320x200'', ''-vcodec'', ''h264'',
                        ''-acodec'', ''aac'', ''-strict'', ''-2'', ''-loglevel'', ''debug'',
                        ''-i'', ''videos/cat#720p.mp4'', ''-f'', ''mp4'',
                        ''-movflags'', ''frag_keyframe+empty_moov'', ''-''],
           StderrPipe, CopyStderr])"
  by (simp add: videoHandler_def on_the_fly_def otf_args_def FileExists_def ToLower_def Let_def
        TrimSuffix_def Ext_def lib_cat_def lib0_def playback_req_def stream_env_ok_def)

text \<open>More generally: whatever the environment, a run of the on-the-fly branch never
  starts the encoder, writes nothing to the response body and kills no process; it
  either reports that the standard-error pipe could not be made, or blocks.\<close>

lemma on_the_fly_never_starts:
  "on_the_fly env videoPath tr =
     (if stderr_pipe_ok env
      then (Blocked, tr @ [ExecCommand (otf_args videoPath), StderrPipe, CopyStderr])
      else (Returned, tr @ [ExecCommand (otf_args videoPath), StderrPipe,
                            HttpErr ''error creating stderr pipe'' 500]))"
  by (simp add: on_the_fly_def)

lemma videoHandler_missing_derivative:
  assumes "Vars request ''prefix'' = None" and "Vars request ''id'' = Some ident"
    and "Videos lib ident = Some m"
    and "ToLower (Query request ''quality'') = q" and "q \<in> set [''720p'', ''480p'', ''360p'', ''240p'']"
    and "\<not> FileExists env (TrimSuffix (VPath m) (Ext (VPath m)) @ ''#'' @ q @ ''.mp4'')"
    and "stderr_pipe_ok env"
  shows "videoHandler env lib request
           = (Blocked,
              [StoreMigrate [] ident, StoreIncViews ident,
               SetHeader ''Content-Disposition'' (disposition (VTitle m)),
               SetHeader ''Content-Type'' ''video/mp4'',
               ExecCommand (otf_args (TrimSuffix (VPath m) (Ext (VPath m)) @ ''#'' @ q @ ''.mp4'')),
               StderrPipe, CopyStderr])"
  using assms by (simp add: videoHandler_def on_the_fly_never_starts Let_def)

end
